theory Spec2Isabelle
  imports Complex_Main
begin

section \<open>Values, errors and the evaluation monad\<close>

text \<open>
  The formulas of \<^verbatim>\<open>openfisca_nl/variables\<close> are Python methods
  \<^verbatim>\<open>formula(entity, period, parameters)\<close> that ask the engine for the
  values of other variables, compute on numpy vectors and return a vector (or, for
  \<^verbatim>\<open>pension\<close>, the scalar \<^verbatim>\<open>0\<close>).  Floats are modelled as reals:
  the arithmetic is exact, rounding is not modelled.
\<close>

datatype error =
    UnknownVariable
  | DuplicateVariable
  | PeriodMismatch
  | CyclicDependency
  | InvalidScale
  | InvalidPeriod
  | UnknownSymbol
  | ValueError   \<comment> \<open>numpy: operands could not be broadcast together\<close>
  | TypeError    \<comment> \<open>numpy/Python: operation not supported by the value's type\<close>
  | IndexError   \<comment> \<open>numpy: index out of bounds\<close>
  | OutOfFuel    \<comment> \<open>not an error of the program: the model's recursion bound was reached\<close>

text \<open>
  Modelled from the spec: the enumerated type of \<^verbatim>\<open>housing_occupancy_status\<close>.
  Its declaration is not among the source files; the formula of \<^verbatim>\<open>housing_tax\<close>
  uses the members \<^verbatim>\<open>owner\<close> and \<^verbatim>\<open>tenant\<close>, and the spec describes a
  closed set of named symbols (\<^verbatim>\<open>owner\<close>, \<^verbatim>\<open>tenant\<close>, \<^verbatim>\<open>other\<close>, ...).
  Every further symbol is \<open>other_status\<close> with its name.
\<close>

datatype HousingOccupancyStatus = owner | tenant | other_status string

datatype vec =
    Floats "real list"
  | Bools "bool list"
  | Enums "HousingOccupancyStatus list"

datatype formula_result = Vector vec | Scalar real

datatype granularity = MONTH | YEAR

record period =
  granularity :: granularity
  start_year :: int
  start_month :: int

type_synonym cache = "string \<times> period \<rightharpoonup> vec"

type_synonym 'a ev = "cache \<Rightarrow> error + ('a \<times> cache)"

definition ev_return :: "'a \<Rightarrow> 'a ev" where
  "ev_return x = (\<lambda>s. Inr (x, s))"

definition ev_raise :: "error \<Rightarrow> 'a ev" where
  "ev_raise e = (\<lambda>s. Inl e)"

definition ev_bind :: "'a ev \<Rightarrow> ('a \<Rightarrow> 'b ev) \<Rightarrow> 'b ev" where
  "ev_bind m f = (\<lambda>s. case m s of Inl e \<Rightarrow> Inl e | Inr (x, s') \<Rightarrow> f x s')"

definition ev_lift :: "error + 'a \<Rightarrow> 'a ev" where
  "ev_lift r = (\<lambda>s. case r of Inl e \<Rightarrow> Inl e | Inr x \<Rightarrow> Inr (x, s))"

section \<open>numpy operations on vectors\<close>

text \<open>
  An elementwise binary operation of numpy on two one-dimensional arrays: equal lengths
  combine index by index, an array of length 1 is broadcast, any other pair of lengths
  raises \<^verbatim>\<open>ValueError\<close>.  Operations between an array and a Python scalar
  (\<^verbatim>\<open>x * 12\<close>, \<^verbatim>\<open>max_(x, 0)\<close>) cannot fail and are written with \<open>map\<close>.
\<close>

definition broadcast2 :: "('a \<Rightarrow> 'b \<Rightarrow> 'c) \<Rightarrow> 'a list \<Rightarrow> 'b list \<Rightarrow> error + 'c list" where
  "broadcast2 f xs ys =
     (if length xs = length ys then Inr (map2 f xs ys)
      else if length xs = 1 then Inr (map (f (hd xs)) ys)
      else if length ys = 1 then Inr (map (\<lambda>x. f x (hd ys)) xs)
      else Inl ValueError)"

definition np_add :: "real list \<Rightarrow> real list \<Rightarrow> error + real list" where
  "np_add = broadcast2 (+)"

definition np_sub :: "real list \<Rightarrow> real list \<Rightarrow> error + real list" where
  "np_sub = broadcast2 (-)"

text \<open>\<^verbatim>\<open>bool_array + bool_array\<close> is the elementwise logical or.\<close>

definition np_add_bool :: "bool list \<Rightarrow> bool list \<Rightarrow> error + bool list" where
  "np_add_bool = broadcast2 (\<or>)"

text \<open>\<^verbatim>\<open>bool_array * float_array\<close>: \<^verbatim>\<open>True\<close> counts as 1, \<^verbatim>\<open>False\<close> as 0.\<close>

definition np_mul_bool :: "bool list \<Rightarrow> real list \<Rightarrow> error + real list" where
  "np_mul_bool = broadcast2 (\<lambda>b x. of_bool b * x)"

text \<open>\<^verbatim>\<open>where(cond, a, b)\<close> broadcasts its three arguments together.\<close>

definition np_where :: "bool list \<Rightarrow> 'a list \<Rightarrow> 'a list \<Rightarrow> error + 'a list" where
  "np_where c a b =
     (case broadcast2 Pair a b of
        Inl e \<Rightarrow> Inl e
      | Inr ab \<Rightarrow> broadcast2 (\<lambda>c (x, y). if c then x else y) c ab)"

text \<open>
  What a formula does with the array the engine hands it decides which element type it
  needs.  Arithmetic takes numbers and counts booleans as 0 and 1; it is not defined on
  an enum array.  \<^verbatim>\<open>.possible_values\<close> and the comparison with an enum member
  need an enum array.
\<close>

fun as_float :: "vec \<Rightarrow> error + real list" where
  "as_float (Floats xs) = Inr xs"
| "as_float (Bools bs) = Inr (map of_bool bs)"
| "as_float (Enums es) = Inl TypeError"

fun as_enum :: "vec \<Rightarrow> error + HousingOccupancyStatus list" where
  "as_enum (Enums es) = Inr es"
| "as_enum (Floats xs) = Inl TypeError"
| "as_enum (Bools bs) = Inl TypeError"

section \<open>Periods\<close>

text \<open>
  Modelled from the spec: the period model (section 4.1).  The period classes belong to
  the engine and are not among the source files; the formulas use
  \<^verbatim>\<open>period.first_month\<close> and \<^verbatim>\<open>period.this_year\<close>.  A period has a
  granularity and a start (year, month); a Year period is normalised to month 1.
  \<open>month\<close> fails with \<open>InvalidPeriod\<close> outside 1..12.
\<close>

definition month :: "int \<Rightarrow> int \<Rightarrow> error + period" where
  "month y m =
     (if 1 \<le> m \<and> m \<le> 12
      then Inr \<lparr>granularity = MONTH, start_year = y, start_month = m\<rparr>
      else Inl InvalidPeriod)"

definition year :: "int \<Rightarrow> period" where
  "year y = \<lparr>granularity = YEAR, start_year = y, start_month = 1\<rparr>"

definition first_month :: "period \<Rightarrow> period" where
  "first_month p = \<lparr>granularity = MONTH, start_year = start_year p, start_month = 1\<rparr>"

definition this_year :: "period \<Rightarrow> period" where
  "this_year p = \<lparr>granularity = YEAR, start_year = start_year p, start_month = 1\<rparr>"

definition months_of :: "period \<Rightarrow> period list" where
  "months_of p =
     map (\<lambda>m. \<lparr>granularity = MONTH, start_year = start_year p, start_month = m\<rparr>) [1..12]"

definition valid_period :: "period \<Rightarrow> bool" where
  "valid_period p =
     (case granularity p of
        YEAR \<Rightarrow> start_month p = 1
      | MONTH \<Rightarrow> 1 \<le> start_month p \<and> start_month p \<le> 12)"

section \<open>Bracket scales\<close>

text \<open>
  Modelled from the spec: the bracket scale evaluator (section 4.2).  The scale class
  belongs to the engine and is not among the source files; the formulas call
  \<^verbatim>\<open>scale.calc(values)\<close>.  A scale is an ordered list of (threshold, marginal rate)
  pairs.  For a value \<open>v\<close> the tax is the sum, over the brackets whose threshold is below
  \<open>v\<close>, of rate times (min(v, next threshold or infinity) - threshold).  \<open>calc\<close> fails
  with \<open>InvalidScale\<close> if the thresholds are not strictly increasing or the first
  threshold is not 0.
\<close>

type_synonym scale = "(real \<times> real) list"

fun bracket_tax :: "scale \<Rightarrow> real \<Rightarrow> real" where
  "bracket_tax [] v = 0"
| "bracket_tax [(t, r)] v = (if t < v then r * (v - t) else 0)"
| "bracket_tax ((t, r) # (t', r') # rest) v =
     (if t < v then r * (min v t' - t) else 0) + bracket_tax ((t', r') # rest) v"

definition valid_scale :: "scale \<Rightarrow> bool" where
  "valid_scale S =
     (sorted_wrt (<) (map fst S) \<and> (case S of [] \<Rightarrow> True | (t0, r0) # rest \<Rightarrow> t0 = 0))"

definition calc :: "scale \<Rightarrow> real list \<Rightarrow> error + real list" where
  "calc S values = (if valid_scale S then Inr (map (bracket_tax S) values) else Inl InvalidScale)"

section \<open>Parameters and entity accessors\<close>

text \<open>
  The parameter store is an external collaborator: \<^verbatim>\<open>parameters(period)\<close> returns
  a tree of named values.  The parameter files are not among the source files, so the
  values stay arbitrary; each field is a leaf the formulas read, named by its dotted path
  (\<^verbatim>\<open>taxes.tax_credits.arbeidskorting_max\<close> is \<open>taxes_tax_credits_arbeidskorting_max\<close>).
\<close>

record parameter_tree =
  general_age_of_retirement :: real
  taxes_income_tax_brackets :: scale
  taxes_income_tax_brackets_aow :: scale
  taxes_social_security_contribution :: scale
  taxes_housing_tax_rate :: real
  taxes_housing_tax_minimal_amount :: real
  taxes_tax_credits_algemene_heffingskorting_max :: real
  taxes_tax_credits_algemene_heffingskorting_income_threshold :: real
  taxes_tax_credits_algemene_heffingskorting_phase_out_rate :: real
  taxes_tax_credits_arbeidskorting_max :: real
  taxes_tax_credits_arbeidskorting_max_income :: real
  taxes_tax_credits_arbeidskorting_buildup_rate :: real
  taxes_tax_credits_arbeidskorting_phase_out_rate :: real
  self_employment_zelfstandigenaftrek :: real
  self_employment_mkb_winstvrijstelling_rate :: real

datatype period_option = DIVIDE

text \<open>
  The first argument of a formula (\<^verbatim>\<open>person\<close> or \<^verbatim>\<open>household\<close>): calling
  it, \<^verbatim>\<open>entity(name, period, options)\<close>, is \<open>call\<close>; \<^verbatim>\<open>household.members(name, period)\<close>
  is \<open>members\<close>; \<^verbatim>\<open>household.sum(array)\<close> is \<open>sum_members\<close>.  The calls run the
  engine: they may raise and they change the cache.
\<close>

record entity_accessor =
  call :: "string \<Rightarrow> period \<Rightarrow> period_option list \<Rightarrow> vec ev"
  members :: "string \<Rightarrow> period \<Rightarrow> vec ev"
  sum_members :: "real list \<Rightarrow> error + real list"

definition float_var :: "entity_accessor \<Rightarrow> string \<Rightarrow> period \<Rightarrow> period_option list \<Rightarrow> real list ev" where
  "float_var e n p opts = ev_bind (call e n p opts) (\<lambda>v. ev_lift (as_float v))"

definition enum_var :: "entity_accessor \<Rightarrow> string \<Rightarrow> period \<Rightarrow> period_option list \<Rightarrow> HousingOccupancyStatus list ev" where
  "enum_var e n p opts = ev_bind (call e n p opts) (\<lambda>v. ev_lift (as_enum v))"

definition float_members :: "entity_accessor \<Rightarrow> string \<Rightarrow> period \<Rightarrow> real list ev" where
  "float_members e n p = ev_bind (members e n p) (\<lambda>v. ev_lift (as_float v))"

type_synonym formula = "entity_accessor \<Rightarrow> period \<Rightarrow> (period \<Rightarrow> parameter_tree) \<Rightarrow> formula_result ev"

section \<open>The formulas of taxes.py\<close>

definition arbeidsinkomen_formula :: formula where
  "arbeidsinkomen_formula person period parameters =
     ev_bind (float_var person ''salary'' period []) (\<lambda>salary.
     ev_bind (float_var person ''self_employment_taxable_income'' period []) (\<lambda>se_income.
     ev_bind (ev_lift (np_add salary se_income)) (\<lambda>result.
     ev_return (Vector (Floats result)))))"

definition algemene_heffingskorting_formula :: formula where
  "algemene_heffingskorting_formula person period parameters =
     (let params = parameters period in
      ev_bind (float_var person ''taxable_income'' period []) (\<lambda>monthly_taxable_income.
      let annual_taxable_income = map (\<lambda>x. x * 12) monthly_taxable_income;
          max_credit = taxes_tax_credits_algemene_heffingskorting_max params;
          threshold = taxes_tax_credits_algemene_heffingskorting_income_threshold params;
          phase_out_rate = taxes_tax_credits_algemene_heffingskorting_phase_out_rate params;
          excess_income = map (\<lambda>x. max (x - threshold) 0) annual_taxable_income;
          reduction = map (\<lambda>x. x * phase_out_rate) excess_income;
          annual_credit = map (\<lambda>x. max (max_credit - x) 0) reduction
      in ev_return (Vector (Floats (map (\<lambda>x. x / 12) annual_credit)))))"

definition arbeidskorting_formula :: formula where
  "arbeidskorting_formula person period parameters =
     (let params = parameters period in
      ev_bind (float_var person ''arbeidsinkomen'' period []) (\<lambda>monthly_arbeidsinkomen.
      let annual_labor_income = map (\<lambda>x. x * 12) monthly_arbeidsinkomen;
          max_credit = taxes_tax_credits_arbeidskorting_max params;
          max_income = taxes_tax_credits_arbeidskorting_max_income params;
          buildup_rate = taxes_tax_credits_arbeidskorting_buildup_rate params;
          phase_out_rate = taxes_tax_credits_arbeidskorting_phase_out_rate params;
          buildup_credit = map (\<lambda>x. x * buildup_rate) annual_labor_income;
          excess_income = map (\<lambda>x. max (x - max_income) 0) annual_labor_income;
          phase_out_reduction = map (\<lambda>x. x * phase_out_rate) excess_income
      in
      ev_bind (ev_lift (np_sub (map (\<lambda>x. min x max_credit) buildup_credit) phase_out_reduction))
        (\<lambda>difference.
      let annual_credit = map (\<lambda>x. max 0 x) difference
      in ev_return (Vector (Floats (map (\<lambda>x. x / 12) annual_credit))))))"

definition taxable_income_formula :: formula where
  "taxable_income_formula person period parameters =
     ev_bind (float_var person ''salary'' period []) (\<lambda>salary.
     ev_bind (float_var person ''capital_returns'' period []) (\<lambda>capital_returns.
     ev_bind (ev_lift (np_add salary capital_returns)) (\<lambda>partial_sum.
     ev_bind (float_var person ''pension'' period []) (\<lambda>pension.
     ev_bind (ev_lift (np_add partial_sum pension)) (\<lambda>base_income.
     ev_bind (float_var person ''self_employment_taxable_income'' period []) (\<lambda>se_income.
     ev_bind (ev_lift (np_add base_income se_income)) (\<lambda>result.
     ev_return (Vector (Floats result)))))))))"

definition income_tax_formula :: formula where
  "income_tax_formula person period parameters =
     ev_bind (float_var person ''taxable_income'' period []) (\<lambda>taxable_income.
     ev_bind (float_var person ''age'' period []) (\<lambda>age.
     let aow_age = general_age_of_retirement (parameters period);
         is_aow_age = map (\<lambda>a. a \<ge> aow_age) age;
         scale = taxes_income_tax_brackets_aow (parameters period);
         scale_regular = taxes_income_tax_brackets (parameters period)
     in
     ev_bind (ev_lift (calc scale taxable_income)) (\<lambda>gross_tax_aow.
     ev_bind (ev_lift (calc scale_regular taxable_income)) (\<lambda>gross_tax_regular.
     ev_bind (ev_lift (np_where is_aow_age gross_tax_aow gross_tax_regular)) (\<lambda>gross_tax.
     ev_bind (float_var person ''algemene_heffingskorting'' period []) (\<lambda>algemene_heffingskorting.
     ev_bind (float_var person ''arbeidskorting'' period []) (\<lambda>arbeidskorting.
     ev_bind (ev_lift (np_sub gross_tax algemene_heffingskorting)) (\<lambda>after_general_credit.
     ev_bind (ev_lift (np_sub after_general_credit arbeidskorting)) (\<lambda>after_credits.
     ev_return (Vector (Floats (map (\<lambda>x. max x 0) after_credits))))))))))))"

definition social_security_contribution_formula :: formula where
  "social_security_contribution_formula person period parameters =
     ev_bind (float_var person ''salary'' period []) (\<lambda>salary.
     let scale = taxes_social_security_contribution (parameters period)
     in
     ev_bind (ev_lift (calc scale salary)) (\<lambda>result.
     ev_return (Vector (Floats result))))"

definition housing_tax_formula :: formula where
  "housing_tax_formula household period parameters =
     (let january = first_month period in
      ev_bind (float_var household ''accommodation_size'' january []) (\<lambda>accommodation_size.
      let rate = taxes_housing_tax_rate (parameters period);
          minimal_amount = taxes_housing_tax_minimal_amount (parameters period);
          tax_amount = map (\<lambda>x. max (x * rate) minimal_amount) accommodation_size
      in
      ev_bind (enum_var household ''housing_occupancy_status'' january []) (\<lambda>occupancy_status.
      let is_tenant = map (\<lambda>s. s = tenant) occupancy_status;
          is_owner = map (\<lambda>s. s = owner) occupancy_status
      in
      ev_bind (ev_lift (np_add_bool is_owner is_tenant)) (\<lambda>owner_or_tenant.
      ev_bind (ev_lift (np_mul_bool owner_or_tenant tax_amount)) (\<lambda>result.
      ev_return (Vector (Floats result)))))))"

section \<open>The formulas of self_employment.py\<close>

definition zelfstandigenaftrek_formula :: formula where
  "zelfstandigenaftrek_formula person period parameters =
     (let enclosing_year = this_year period in
      ev_bind (float_var person ''urencriterium_voldaan'' enclosing_year []) (\<lambda>hours_criterion_met.
      let annual_deduction = self_employment_zelfstandigenaftrek (parameters period);
          monthly_deduction = annual_deduction / 12
      in ev_return (Vector (Floats (map (\<lambda>h. h * monthly_deduction) hours_criterion_met)))))"

definition mkb_winstvrijstelling_formula :: formula where
  "mkb_winstvrijstelling_formula person period parameters =
     ev_bind (float_var person ''winst_voor_aftrek'' period []) (\<lambda>profit_before.
     ev_bind (float_var person ''zelfstandigenaftrek'' period []) (\<lambda>aftrek.
     ev_bind (ev_lift (np_sub profit_before aftrek)) (\<lambda>difference.
     let profit_after_deductions = map (\<lambda>x. max x 0) difference;
         rate = self_employment_mkb_winstvrijstelling_rate (parameters period)
     in ev_return (Vector (Floats (map (\<lambda>x. x * rate) profit_after_deductions))))))"

definition self_employment_taxable_income_formula :: formula where
  "self_employment_taxable_income_formula person period parameters =
     ev_bind (float_var person ''winst_voor_aftrek'' period []) (\<lambda>winst.
     ev_bind (float_var person ''zelfstandigenaftrek'' period []) (\<lambda>zelfstandigenaftrek.
     ev_bind (float_var person ''mkb_winstvrijstelling'' period []) (\<lambda>mkb.
     ev_bind (ev_lift (np_sub winst zelfstandigenaftrek)) (\<lambda>after_aftrek.
     ev_bind (ev_lift (np_sub after_aftrek mkb)) (\<lambda>taxable.
     ev_return (Vector (Floats (map (\<lambda>x. max x 0) taxable))))))))"

section \<open>The formulas of income.py, stats.py and benefits.py\<close>

definition disposable_income_formula :: formula where
  "disposable_income_formula household period parameters =
     ev_bind (float_members household ''salary'' period) (\<lambda>salary_i.
     ev_bind (ev_lift (sum_members household salary_i)) (\<lambda>salary.
     ev_bind (float_members household ''self_employment_taxable_income'' period) (\<lambda>se_income_i.
     ev_bind (ev_lift (sum_members household se_income_i)) (\<lambda>se_income.
     ev_bind (float_members household ''capital_returns'' period) (\<lambda>capital_returns_i.
     ev_bind (ev_lift (sum_members household capital_returns_i)) (\<lambda>capital_returns.
     ev_bind (float_members household ''pension'' period) (\<lambda>pension_i.
     ev_bind (ev_lift (sum_members household pension_i)) (\<lambda>pension.
     ev_bind (float_members household ''income_tax'' period) (\<lambda>income_tax_i.
     ev_bind (ev_lift (sum_members household income_tax_i)) (\<lambda>income_tax.
     ev_bind (float_var household ''housing_tax'' period [DIVIDE]) (\<lambda>housing_tax.
     ev_bind (float_members household ''social_security_contribution'' period) (\<lambda>contribution_i.
     ev_bind (ev_lift (sum_members household contribution_i)) (\<lambda>social_security_contribution.
     ev_bind (ev_lift (np_add salary se_income)) (\<lambda>t1.
     ev_bind (ev_lift (np_add t1 capital_returns)) (\<lambda>t2.
     ev_bind (ev_lift (np_add t2 pension)) (\<lambda>t3.
     ev_bind (ev_lift (np_sub t3 income_tax)) (\<lambda>t4.
     ev_bind (ev_lift (np_sub t4 housing_tax)) (\<lambda>t5.
     ev_bind (ev_lift (np_sub t5 social_security_contribution)) (\<lambda>result.
     ev_return (Vector (Floats result)))))))))))))))))))))"

definition winst_voor_aftrek_formula :: formula where
  "winst_voor_aftrek_formula person period parameters =
     ev_bind (float_var person ''omzet'' period []) (\<lambda>omzet.
     ev_bind (float_var person ''kosten'' period []) (\<lambda>kosten.
     ev_bind (ev_lift (np_sub omzet kosten)) (\<lambda>result.
     ev_return (Vector (Floats result)))))"

definition total_taxes_formula :: formula where
  "total_taxes_formula household period parameters =
     ev_bind (float_members household ''income_tax'' period) (\<lambda>income_tax_i.
     ev_bind (float_members household ''social_security_contribution'' period) (\<lambda>social_security_contribution_i.
     ev_bind (ev_lift (sum_members household income_tax_i)) (\<lambda>income_tax_sum.
     ev_bind (ev_lift (sum_members household social_security_contribution_i)) (\<lambda>contribution_sum.
     ev_bind (ev_lift (np_add income_tax_sum contribution_sum)) (\<lambda>t1.
     ev_bind (float_var household ''housing_tax'' (this_year period) []) (\<lambda>housing_tax.
     ev_bind (ev_lift (np_add t1 (map (\<lambda>x. x / 12) housing_tax))) (\<lambda>result.
     ev_return (Vector (Floats result)))))))))"

definition pension_formula :: formula where
  "pension_formula person period parameters = ev_return (Scalar 0)"

definition household_income_formula :: formula where
  "household_income_formula household period parameters =
     ev_bind (float_members household ''salary'' period) (\<lambda>salaries.
     ev_bind (ev_lift (sum_members household salaries)) (\<lambda>result.
     ev_return (Vector (Floats result))))"

section \<open>Variable definitions\<close>

datatype entity_kind = Person | Household

datatype value_kind = Float_value | Bool_value | Enum_value HousingOccupancyStatus

datatype set_input_helper = set_input_divide_by_period

text \<open>
  One record per \<^verbatim>\<open>Variable\<close> class: its name, entity, value type, definition period,
  the optional \<^verbatim>\<open>set_input\<close> attribute and the optional formula.  An enum value type
  carries its default symbol.
\<close>

record variable =
  name :: string
  entity :: entity_kind
  value_type :: value_kind
  definition_period :: granularity
  set_input :: "set_input_helper option"
  formula :: "formula option"

definition person_month_float :: "string \<Rightarrow> formula option \<Rightarrow> variable" where
  "person_month_float n f =
     \<lparr>name = n, entity = Person, value_type = Float_value, definition_period = MONTH,
      set_input = None, formula = f\<rparr>"

definition household_month_float :: "string \<Rightarrow> formula option \<Rightarrow> variable" where
  "household_month_float n f =
     \<lparr>name = n, entity = Household, value_type = Float_value, definition_period = MONTH,
      set_input = None, formula = f\<rparr>"

definition arbeidsinkomen :: variable where
  "arbeidsinkomen = person_month_float ''arbeidsinkomen'' (Some arbeidsinkomen_formula)"

definition algemene_heffingskorting :: variable where
  "algemene_heffingskorting =
     person_month_float ''algemene_heffingskorting'' (Some algemene_heffingskorting_formula)"

definition arbeidskorting :: variable where
  "arbeidskorting = person_month_float ''arbeidskorting'' (Some arbeidskorting_formula)"

definition taxable_income :: variable where
  "taxable_income = person_month_float ''taxable_income'' (Some taxable_income_formula)"

definition income_tax :: variable where
  "income_tax = person_month_float ''income_tax'' (Some income_tax_formula)"

definition social_security_contribution :: variable where
  "social_security_contribution =
     person_month_float ''social_security_contribution'' (Some social_security_contribution_formula)"

definition housing_tax :: variable where
  "housing_tax =
     \<lparr>name = ''housing_tax'', entity = Household, value_type = Float_value,
      definition_period = YEAR, set_input = None, formula = Some housing_tax_formula\<rparr>"

definition urencriterium_voldaan :: variable where
  "urencriterium_voldaan =
     \<lparr>name = ''urencriterium_voldaan'', entity = Person, value_type = Bool_value,
      definition_period = YEAR, set_input = None, formula = None\<rparr>"

definition zelfstandigenaftrek :: variable where
  "zelfstandigenaftrek =
     person_month_float ''zelfstandigenaftrek'' (Some zelfstandigenaftrek_formula)"

definition mkb_winstvrijstelling :: variable where
  "mkb_winstvrijstelling =
     person_month_float ''mkb_winstvrijstelling'' (Some mkb_winstvrijstelling_formula)"

definition self_employment_taxable_income :: variable where
  "self_employment_taxable_income =
     person_month_float ''self_employment_taxable_income''
       (Some self_employment_taxable_income_formula)"

definition salary :: variable where
  "salary = (person_month_float ''salary'' None)\<lparr>set_input := Some set_input_divide_by_period\<rparr>"

definition capital_returns :: variable where
  "capital_returns =
     (person_month_float ''capital_returns'' None)\<lparr>set_input := Some set_input_divide_by_period\<rparr>"

definition disposable_income :: variable where
  "disposable_income = household_month_float ''disposable_income'' (Some disposable_income_formula)"

definition omzet :: variable where
  "omzet = person_month_float ''omzet'' None"

definition kosten :: variable where
  "kosten = person_month_float ''kosten'' None"

definition winst_voor_aftrek :: variable where
  "winst_voor_aftrek = person_month_float ''winst_voor_aftrek'' (Some winst_voor_aftrek_formula)"

definition total_taxes :: variable where
  "total_taxes = household_month_float ''total_taxes'' (Some total_taxes_formula)"

definition pension :: variable where
  "pension = person_month_float ''pension'' (Some pension_formula)"

definition household_income :: variable where
  "household_income = household_month_float ''household_income'' (Some household_income_formula)"

definition source_variables :: "variable list" where
  "source_variables =
     [arbeidsinkomen, algemene_heffingskorting, arbeidskorting, taxable_income, income_tax,
      social_security_contribution, housing_tax,
      urencriterium_voldaan, zelfstandigenaftrek, mkb_winstvrijstelling,
      self_employment_taxable_income,
      salary, capital_returns, disposable_income, omzet, kosten, winst_voor_aftrek,
      total_taxes, pension, household_income]"

section \<open>Population and aggregation\<close>

text \<open>
  Modelled from the spec: entity population and aggregation (sections 3 and 4.5); the
  population classes belong to the engine and are not among the source files.  Persons
  and households are numbered from 0; \<open>household_of\<close> gives, for each person in order,
  the number of its household.  \<open>sum_by_household\<close> is \<^verbatim>\<open>household.sum\<close>: for
  each household the sum of its members' values, in membership order, 0 without members.
  \<open>project_to_persons\<close> repeats a household's value across its members.
\<close>

record population =
  household_count :: nat
  household_of :: "nat list"

definition person_count :: "population \<Rightarrow> nat" where
  "person_count pop = length (household_of pop)"

definition entity_count :: "population \<Rightarrow> entity_kind \<Rightarrow> nat" where
  "entity_count pop k = (case k of Person \<Rightarrow> person_count pop | Household \<Rightarrow> household_count pop)"

definition sum_by_household :: "population \<Rightarrow> real list \<Rightarrow> error + real list" where
  "sum_by_household pop v =
     (if length v = person_count pop
      then Inr (map (\<lambda>h. sum_list (map (\<lambda>i. v ! i)
                              (filter (\<lambda>i. household_of pop ! i = h) [0..<person_count pop])))
                    [0..<household_count pop])
      else Inl ValueError)"

definition project_list :: "population \<Rightarrow> 'a list \<Rightarrow> error + 'a list" where
  "project_list pop v =
     (if list_all (\<lambda>h. h < length v) (household_of pop)
      then Inr (map (\<lambda>h. v ! h) (household_of pop))
      else Inl IndexError)"

fun project_to_persons :: "population \<Rightarrow> vec \<Rightarrow> error + vec" where
  "project_to_persons pop (Floats xs) = map_sum id Floats (project_list pop xs)"
| "project_to_persons pop (Bools bs) = map_sum id Bools (project_list pop bs)"
| "project_to_persons pop (Enums es) = map_sum id Enums (project_list pop es)"

section \<open>Variable registry and dependency evaluator\<close>

text \<open>
  Modelled from the spec: the variable registry and dependency evaluator (section 4.4)
  with the period conversion of section 4.5.  The engine is not among the source files;
  the formulas above are its callers.

  \<open>register\<close> fails with \<open>DuplicateVariable\<close> if the name is already registered.
\<close>

type_synonym registry = "string \<rightharpoonup> variable"

definition register :: "registry \<Rightarrow> variable \<Rightarrow> error + registry" where
  "register reg d =
     (case reg (name d) of
        Some d' \<Rightarrow> Inl DuplicateVariable
      | None \<Rightarrow> Inr (reg(name d \<mapsto> d)))"

fun register_all :: "registry \<Rightarrow> variable list \<Rightarrow> error + registry" where
  "register_all reg [] = Inr reg"
| "register_all reg (d # ds) =
     (case register reg d of Inl e \<Rightarrow> Inl e | Inr reg' \<Rightarrow> register_all reg' ds)"

record env =
  registry :: registry
  population :: population
  inputs :: "string \<times> period \<rightharpoonup> vec"
  parameter_store :: "period \<Rightarrow> parameter_tree"

text \<open>
  Modelled from the spec: the default vector of a variable (0.0, false or the enum
  default, for every entity), and the division of a yearly value.
\<close>

definition default_array :: "population \<Rightarrow> variable \<Rightarrow> vec" where
  "default_array pop var =
     (let n = entity_count pop (entity var) in
      case value_type var of
        Float_value \<Rightarrow> Floats (replicate n 0)
      | Bool_value \<Rightarrow> Bools (replicate n False)
      | Enum_value d \<Rightarrow> Enums (replicate n d))"

definition divide_vec :: "vec \<Rightarrow> real \<Rightarrow> error + vec" where
  "divide_vec v c =
     (case as_float v of Inl e \<Rightarrow> Inl e | Inr xs \<Rightarrow> Inr (Floats (map (\<lambda>x. x / c) xs)))"

text \<open>
  Modelled from the spec: step 3 of the algorithm, for a variable without formula: read the inputs at the
  requested (name, period); for a Month-definition variable for which the caller supplied
  a Year-level value, divide the yearly value evenly across the 12 months if the variable
  is marked period-divisible, and fail with \<open>PeriodMismatch\<close> otherwise; if absent from
  the inputs, return the default vector.
\<close>

definition read_input :: "env \<Rightarrow> variable \<Rightarrow> string \<Rightarrow> period \<Rightarrow> error + vec" where
  "read_input env var n p =
     (case inputs env (n, p) of
        Some v \<Rightarrow> Inr v
      | None \<Rightarrow>
          (if definition_period var = MONTH \<and> granularity p = MONTH
           then (case inputs env (n, this_year p) of
                   Some yearly \<Rightarrow>
                     (if set_input var = Some set_input_divide_by_period
                      then divide_vec yearly 12
                      else Inl PeriodMismatch)
                 | None \<Rightarrow> Inr (default_array (population env) var))
           else Inr (default_array (population env) var)))"

text \<open>
  Modelled from the spec: result vectors are always index-aligned with the population of the variable's entity
  kind: a formula that returns a scalar (\<^verbatim>\<open>pension\<close> returns \<^verbatim>\<open>0\<close>) has it
  repeated for every entity.
\<close>

definition cast_result :: "population \<Rightarrow> variable \<Rightarrow> formula_result \<Rightarrow> error + vec" where
  "cast_result pop var r =
     (case r of
        Vector v \<Rightarrow> Inr v
      | Scalar c \<Rightarrow>
          (let n = entity_count pop (entity var) in
           case value_type var of
             Float_value \<Rightarrow> Inr (Floats (replicate n c))
           | Bool_value \<Rightarrow> Inr (Bools (replicate n (c \<noteq> 0)))
           | Enum_value d \<Rightarrow> Inl TypeError))"

definition store :: "string \<Rightarrow> period \<Rightarrow> vec \<Rightarrow> vec ev" where
  "store n p v = (\<lambda>cache. Inr (v, cache((n, p) \<mapsto> v)))"

text \<open>
  Modelled from the spec: the entity accessor handed to a formula, over the evaluator \<open>ev\<close> for nested requests.
  A request with the \<open>DIVIDE\<close> option for a Year-defined variable at a Month period
  evaluates the variable on the enclosing year and divides the annual value by 12.
  Reading a Household variable from a Person context, or through \<open>members\<close>, repeats
  the household's value across its members.
\<close>

definition engine_call ::
  "env \<Rightarrow> entity_kind \<Rightarrow> (string \<Rightarrow> period \<Rightarrow> vec ev) \<Rightarrow> string \<Rightarrow> period \<Rightarrow> period_option list \<Rightarrow> vec ev" where
  "engine_call env k ev n p opts =
     (case registry env n of
        None \<Rightarrow> ev_raise UnknownVariable
      | Some var \<Rightarrow>
          ev_bind
            (if DIVIDE \<in> set opts \<and> definition_period var = YEAR \<and> granularity p = MONTH
             then ev_bind (ev n (this_year p)) (\<lambda>v. ev_lift (divide_vec v 12))
             else ev n p)
            (\<lambda>v. if k = Person \<and> entity var = Household
                 then ev_lift (project_to_persons (population env) v)
                 else ev_return v))"

definition engine_members ::
  "env \<Rightarrow> (string \<Rightarrow> period \<Rightarrow> vec ev) \<Rightarrow> string \<Rightarrow> period \<Rightarrow> vec ev" where
  "engine_members env ev n p =
     (case registry env n of
        None \<Rightarrow> ev_raise UnknownVariable
      | Some var \<Rightarrow>
          ev_bind (ev n p)
            (\<lambda>v. if entity var = Household
                 then ev_lift (project_to_persons (population env) v)
                 else ev_return v))"

definition engine_accessor ::
  "env \<Rightarrow> entity_kind \<Rightarrow> (string \<Rightarrow> period \<Rightarrow> vec ev) \<Rightarrow> entity_accessor" where
  "engine_accessor env k ev =
     \<lparr>call = engine_call env k ev,
      members = engine_members env ev,
      sum_members = sum_by_household (population env)\<rparr>"

text \<open>
  Modelled from the spec: the evaluator, with the pairs being computed (\<open>pending\<close>) and the cache of the run.
  The first argument bounds the depth of nested requests; reaching it is \<open>OutOfFuel\<close>.
  \<^enum> Look up the cache for (name, period); return if present.
  \<^enum> Look up the variable definition; fail with \<open>UnknownVariable\<close> if absent.
  \<^enum> Without formula: read the inputs.
  \<^enum> With a formula: fail with \<open>CyclicDependency\<close> if (name, period) is already being
     computed; otherwise invoke the formula with an accessor whose requests are nested
     evaluations, with (name, period) pending.
  \<^enum> Store the result in the cache; return it.
\<close>

primrec evaluate_rec ::
  "nat \<Rightarrow> env \<Rightarrow> (string \<times> period) set \<Rightarrow> string \<Rightarrow> period \<Rightarrow> vec ev" where
  "evaluate_rec 0 env pending n p = ev_raise OutOfFuel"
| "evaluate_rec (Suc fuel) env pending n p =
     (\<lambda>cache.
        case cache (n, p) of
          Some v \<Rightarrow> Inr (v, cache)
        | None \<Rightarrow>
            (case registry env n of
               None \<Rightarrow> Inl UnknownVariable
             | Some var \<Rightarrow>
                 (case formula var of
                    None \<Rightarrow> ev_bind (ev_lift (read_input env var n p)) (store n p) cache
                  | Some f \<Rightarrow>
                      if (n, p) \<in> pending then Inl CyclicDependency
                      else
                        ev_bind
                          (f (engine_accessor env (entity var)
                                (evaluate_rec fuel env (insert (n, p) pending)))
                             p (parameter_store env))
                          (\<lambda>r. ev_bind (ev_lift (cast_result (population env) var r)) (store n p))
                          cache)))"

text \<open>
  Modelled from the spec: one run of \<^verbatim>\<open>evaluate(name, period, population, inputs)\<close>,
  with an empty cache and nothing pending; the cache is discarded at the end.
\<close>

definition evaluate :: "nat \<Rightarrow> env \<Rightarrow> string \<Rightarrow> period \<Rightarrow> error + vec" where
  "evaluate fuel env n p = map_sum id fst (evaluate_rec fuel env {} n p Map.empty)"

section \<open>Instances for the examples\<close>

text \<open>
  An accessor that answers every request from a fixed table and leaves the cache
  unchanged, a Month period and a parameter tree; the examples below instantiate the
  theorems with them.
\<close>

definition table_accessor :: "(string \<Rightarrow> vec) \<Rightarrow> entity_accessor" where
  "table_accessor t =
     \<lparr>call = (\<lambda>n p opts. ev_return (t n)),
      members = (\<lambda>n p. ev_return (t n)),
      sum_members = Inr\<rparr>"

definition example_period :: period where
  "example_period = \<lparr>granularity = MONTH, start_year = 2024, start_month = 1\<rparr>"

definition example_parameters :: "period \<Rightarrow> parameter_tree" where
  "example_parameters p =
     \<lparr>general_age_of_retirement = 67,
      taxes_income_tax_brackets = [(0, 1 / 10), (2000, 3 / 10)],
      taxes_income_tax_brackets_aow = [(0, 1 / 20), (2000, 3 / 10)],
      taxes_social_security_contribution = [(0, 1 / 50), (1000, 3 / 50)],
      taxes_housing_tax_rate = 10,
      taxes_housing_tax_minimal_amount = 200,
      taxes_tax_credits_algemene_heffingskorting_max = 3000,
      taxes_tax_credits_algemene_heffingskorting_income_threshold = 24000,
      taxes_tax_credits_algemene_heffingskorting_phase_out_rate = 3 / 50,
      taxes_tax_credits_arbeidskorting_max = 5000,
      taxes_tax_credits_arbeidskorting_max_income = 40000,
      taxes_tax_credits_arbeidskorting_buildup_rate = 1 / 10,
      taxes_tax_credits_arbeidskorting_phase_out_rate = 3 / 50,
      self_employment_zelfstandigenaftrek = 3750,
      self_employment_mkb_winstvrijstelling_rate = 7 / 50\<rparr>"

definition salary_only_table :: "string \<Rightarrow> vec" where
  "salary_only_table n = (if n = ''salary'' then Floats [3000] else Floats [0])"

definition credits_table :: "string \<Rightarrow> vec" where
  "credits_table n =
     (if n = ''taxable_income'' then Floats [3000, 1000]
      else if n = ''age'' then Floats [40, 40]
      else if n = ''algemene_heffingskorting'' then Floats [190, 250]
      else if n = ''arbeidskorting'' then Floats [300, 100]
      else Floats [0, 0])"

definition two_ages_table :: "string \<Rightarrow> vec" where
  "two_ages_table n =
     (if n = ''taxable_income'' then Floats [3000, 3000]
      else if n = ''age'' then Floats [70, 40]
      else Floats [0, 0])"

definition housing_table :: "string \<Rightarrow> vec" where
  "housing_table n =
     (if n = ''accommodation_size'' then Floats [100, 0, 50]
      else Enums [owner, tenant, other_status ''free_lodger''])"


definition input_env :: "(string \<times> period \<rightharpoonup> vec) \<Rightarrow> env" where
  "input_env i =
     \<lparr>registry = [''omzet'' \<mapsto> omzet, ''kosten'' \<mapsto> kosten, ''salary'' \<mapsto> salary,
                  ''pension'' \<mapsto> pension, ''urencriterium_voldaan'' \<mapsto> urencriterium_voldaan],
      population = \<lparr>household_count = 1, household_of = [0, 0]\<rparr>,
      inputs = i,
      parameter_store = example_parameters\<rparr>"


text \<open>
  Variables with cyclic formulas, for the examples of cycle detection: \<open>a\<close> requests
  itself; \<open>b\<close> requests \<open>c\<close>, which requests \<open>b\<close>.
\<close>

definition request_formula :: "string \<Rightarrow> formula" where
  "request_formula dependency person period parameters =
     ev_bind (float_var person dependency period []) (\<lambda>v. ev_return (Vector (Floats v)))"

definition cyclic_env :: env where
  "cyclic_env =
     \<lparr>registry = [''a'' \<mapsto> person_month_float ''a'' (Some (request_formula ''a'')),
                  ''b'' \<mapsto> person_month_float ''b'' (Some (request_formula ''c'')),
                  ''c'' \<mapsto> person_month_float ''c'' (Some (request_formula ''b''))],
      population = \<lparr>household_count = 1, household_of = [0]\<rparr>,
      inputs = Map.empty,
      parameter_store = example_parameters\<rparr>"

text \<open>
  An evaluator that answers from a table, and an environment with the variables that
  \<open>disposable_income\<close> and \<open>total_taxes\<close> request: one household of two persons.
\<close>

definition household_table :: "string \<Rightarrow> vec" where
  "household_table n =
     (if n = ''housing_tax'' then Floats [1200]
      else if n = ''salary'' then Floats [3000, 1000]
      else if n = ''income_tax'' then Floats [10, 0]
      else if n = ''social_security_contribution'' then Floats [140, 20]
      else Floats [0, 0])"

definition table_evaluator :: "string \<Rightarrow> period \<Rightarrow> vec ev" where
  "table_evaluator n p = ev_return (household_table n)"

definition household_env :: env where
  "household_env =
     \<lparr>registry = [''housing_tax'' \<mapsto> housing_tax, ''salary'' \<mapsto> salary,
                  ''self_employment_taxable_income'' \<mapsto> self_employment_taxable_income,
                  ''capital_returns'' \<mapsto> capital_returns, ''pension'' \<mapsto> pension,
                  ''income_tax'' \<mapsto> income_tax,
                  ''social_security_contribution'' \<mapsto> social_security_contribution],
      population = \<lparr>household_count = 1, household_of = [0, 0]\<rparr>,
      inputs = Map.empty,
      parameter_store = example_parameters\<rparr>"

section \<open>Periods: months of a year\<close>

lemma upto_1_12: "[1..12] = [1, 2, 3, 4, 5, 6, 7, 8, 9, 10, 11, 12 :: int]"
  by (simp add: upto_rec1)

lemma this_year_of_month:
  "m \<in> set (months_of p) \<Longrightarrow> valid_period p \<Longrightarrow> granularity p = YEAR \<Longrightarrow> this_year m = p"
  by (cases p) (auto simp: months_of_def this_year_def valid_period_def)

text \<open>
  Claim C8.  For every Year period \<open>p\<close>, \<open>months_of p\<close> has exactly 12 elements, which
  are the Month periods 1 to 12 of the year of \<open>p\<close> in calendar order (each the result of
  \<open>month\<close>), the first of them is \<open>first_month p\<close>, and \<open>this_year (first_month p) = p\<close>.
\<close>

theorem months_of_year_period:
  assumes "valid_period p" and "granularity p = YEAR"
  shows "length (months_of p) = 12
       \<and> map Inr (months_of p) = map (month (start_year p)) [1, 2, 3, 4, 5, 6, 7, 8, 9, 10, 11, 12]
       \<and> first_month p = months_of p ! 0
       \<and> this_year (first_month p) = p"
  using assms
  by (cases p)
     (simp add: months_of_def upto_1_12 month_def first_month_def this_year_def valid_period_def)

theorem months_of_year_period_witness:
  "valid_period (year 2024) \<and> granularity (year 2024) = YEAR
   \<and> length (months_of (year 2024)) = 12
   \<and> this_year (first_month (year 2024)) = year 2024"
proof -
  have v: "valid_period (year 2024)" by (simp add: year_def valid_period_def)
  have g: "granularity (year 2024) = YEAR" by (simp add: year_def)
  show ?thesis using v g months_of_year_period[OF v g] by blast
qed

section \<open>Bracket scales: monotonicity\<close>








section \<open>Running a formula against given answers of the engine\<close>

lemma ev_bind_lift_Inr: "r = Inr x \<Longrightarrow> ev_bind (ev_lift r) f s = f x s"
  by (simp add: ev_bind_def ev_lift_def)

lemma bind_float_var:
  "call e n p opts s = Inr (Floats xs, s') \<Longrightarrow> ev_bind (float_var e n p opts) f s = f xs s'"
  by (simp add: float_var_def ev_bind_def ev_lift_def)

lemma bind_enum_var:
  "call e n p opts s = Inr (Enums xs, s') \<Longrightarrow> ev_bind (enum_var e n p opts) f s = f xs s'"
  by (simp add: enum_var_def ev_bind_def ev_lift_def)

lemma bind_float_members:
  "members e n p s = Inr (Floats xs, s') \<Longrightarrow> ev_bind (float_members e n p) f s = f xs s'"
  by (simp add: float_members_def ev_bind_def ev_lift_def)

lemma broadcast2_same_length:
  "length xs = n \<Longrightarrow> length ys = n
   \<Longrightarrow> broadcast2 f xs ys = Inr (map (\<lambda>i. f (xs ! i) (ys ! i)) [0..<n])"
  unfolding broadcast2_def by (auto intro!: nth_equalityI)

lemma np_where_same_length:
  assumes "length c = n" "length a = n" "length b = n"
  shows "np_where c a b = Inr (map (\<lambda>i. if c ! i then a ! i else b ! i) [0..<n])"
  unfolding np_where_def
  using assms by (simp add: broadcast2_same_length[where n = n])

lemma taxable_income_formula_result:
  assumes "call person ''salary'' period [] s0 = Inr (Floats sal, s1)"
    and "call person ''capital_returns'' period [] s1 = Inr (Floats cr, s2)"
    and "call person ''pension'' period [] s2 = Inr (Floats pen, s3)"
    and "call person ''self_employment_taxable_income'' period [] s3 = Inr (Floats se, s4)"
    and "length sal = n" "length cr = n" "length pen = n" "length se = n"
  shows "taxable_income_formula person period parameters s0 =
           Inr (Vector (Floats (map (\<lambda>i. sal ! i + cr ! i + pen ! i + se ! i) [0..<n])), s4)"
  unfolding taxable_income_formula_def
  using assms
  by (simp add: bind_float_var np_add_def broadcast2_same_length[where n = n]
      ev_bind_lift_Inr ev_return_def)

lemma income_tax_formula_result:
  assumes "call person ''taxable_income'' period [] s0 = Inr (Floats ti, s1)"
    and "call person ''age'' period [] s1 = Inr (Floats ag, s2)"
    and "call person ''algemene_heffingskorting'' period [] s2 = Inr (Floats ahk, s3)"
    and "call person ''arbeidskorting'' period [] s3 = Inr (Floats ak, s4)"
    and "length ti = n" "length ag = n" "length ahk = n" "length ak = n"
    and "valid_scale (taxes_income_tax_brackets_aow (parameters period))"
    and "valid_scale (taxes_income_tax_brackets (parameters period))"
  shows "income_tax_formula person period parameters s0 =
           Inr (Vector (Floats (map (\<lambda>i.
                  max ((if general_age_of_retirement (parameters period) \<le> ag ! i
                        then bracket_tax (taxes_income_tax_brackets_aow (parameters period)) (ti ! i)
                        else bracket_tax (taxes_income_tax_brackets (parameters period)) (ti ! i))
                       - ahk ! i - ak ! i) 0) [0..<n])), s4)"
  unfolding income_tax_formula_def Let_def
  using assms
  by (simp add: bind_float_var calc_def np_sub_def broadcast2_same_length[where n = n]
      np_where_same_length[where n = n] ev_bind_lift_Inr ev_return_def)

lemma housing_tax_formula_result:
  assumes "call household ''accommodation_size'' (first_month period) [] s0 = Inr (Floats sz, s1)"
    and "call household ''housing_occupancy_status'' (first_month period) [] s1 = Inr (Enums st, s2)"
    and "length sz = n" "length st = n"
  shows "housing_tax_formula household period parameters s0 =
           Inr (Vector (Floats (map (\<lambda>i.
                  if st ! i = owner \<or> st ! i = tenant
                  then max (sz ! i * taxes_housing_tax_rate (parameters period))
                           (taxes_housing_tax_minimal_amount (parameters period))
                  else 0) [0..<n])), s2)"
  unfolding housing_tax_formula_def Let_def
  using assms
  by (simp add: bind_float_var bind_enum_var np_add_bool_def np_mul_bool_def
      broadcast2_same_length[where n = n] ev_bind_lift_Inr ev_return_def)



lemma call_table_accessor: "call (table_accessor t) n p opts s = Inr (t n, s)"
  by (simp add: table_accessor_def ev_return_def)


section \<open>taxable_income\<close>

text \<open>
  Claim C4.  For every person and period, \<open>taxable_income\<close> is the sum of
  \<^verbatim>\<open>salary\<close>, \<^verbatim>\<open>capital_returns\<close>, \<^verbatim>\<open>pension\<close> and
  \<^verbatim>\<open>self_employment_taxable_income\<close> of that person for the same period, as the
  engine returns them to the formula.  The example instantiates it: salary 3000 and the
  other three 0 give exactly 3000.
\<close>

theorem taxable_income_is_sum:
  assumes "call person ''salary'' period [] s0 = Inr (Floats sal, s1)"
    and "call person ''capital_returns'' period [] s1 = Inr (Floats cr, s2)"
    and "call person ''pension'' period [] s2 = Inr (Floats pen, s3)"
    and "call person ''self_employment_taxable_income'' period [] s3 = Inr (Floats se, s4)"
    and "length sal = n" and "length cr = n" and "length pen = n" and "length se = n"
  shows "\<exists>r. taxable_income_formula person period parameters s0 = Inr (Vector (Floats r), s4)
           \<and> length r = n
           \<and> (\<forall>i<n. r ! i = sal ! i + cr ! i + pen ! i + se ! i)"
  using taxable_income_formula_result[OF assms] by simp

theorem taxable_income_is_sum_witness:
  "taxable_income_formula (table_accessor salary_only_table) example_period example_parameters Map.empty
     = Inr (Vector (Floats [3000]), Map.empty)"
proof -
  let ?a = "table_accessor salary_only_table"
  have h1: "call ?a ''salary'' example_period [] Map.empty = Inr (Floats [3000], Map.empty)"
    by (simp add: call_table_accessor salary_only_table_def)
  have h2: "call ?a ''capital_returns'' example_period [] Map.empty = Inr (Floats [0], Map.empty)"
    by (simp add: call_table_accessor salary_only_table_def)
  have h3: "call ?a ''pension'' example_period [] Map.empty = Inr (Floats [0], Map.empty)"
    by (simp add: call_table_accessor salary_only_table_def)
  have h4: "call ?a ''self_employment_taxable_income'' example_period [] Map.empty
              = Inr (Floats [0], Map.empty)"
    by (simp add: call_table_accessor salary_only_table_def)
  from taxable_income_is_sum[OF h1 h2 h3 h4, of 1 example_parameters]
  obtain r where r: "taxable_income_formula ?a example_period example_parameters Map.empty
                       = Inr (Vector (Floats r), Map.empty)"
    and len: "length r = 1" and val: "\<forall>i<1. r ! i = [3000] ! i + [0] ! i + [0] ! i + [0] ! i"
    by auto
  have "r = [3000]" using len val by (cases r) auto
  then show ?thesis using r by simp
qed

section \<open>income_tax\<close>

lemma example_scales_valid:
  "valid_scale (taxes_income_tax_brackets_aow (example_parameters p))"
  "valid_scale (taxes_income_tax_brackets (example_parameters p))"
  by (simp_all add: example_parameters_def valid_scale_def)

text \<open>
  Claim C1.  For every person and period, \<open>income_tax\<close> equals
  max(gross tax - credits, 0), where the gross tax is the bracket-scale tax of the person's
  \<^verbatim>\<open>taxable_income\<close> and the credits are \<^verbatim>\<open>algemene_heffingskorting\<close> plus
  \<^verbatim>\<open>arbeidskorting\<close> for the same period; it is never negative.
\<close>

theorem income_tax_is_clamped_difference:
  assumes "call person ''taxable_income'' period [] s0 = Inr (Floats ti, s1)"
    and "call person ''age'' period [] s1 = Inr (Floats ag, s2)"
    and "call person ''algemene_heffingskorting'' period [] s2 = Inr (Floats ahk, s3)"
    and "call person ''arbeidskorting'' period [] s3 = Inr (Floats ak, s4)"
    and "length ti = n" and "length ag = n" and "length ahk = n" and "length ak = n"
    and "valid_scale (taxes_income_tax_brackets_aow (parameters period))"
    and "valid_scale (taxes_income_tax_brackets (parameters period))"
  shows "\<exists>r. income_tax_formula person period parameters s0 = Inr (Vector (Floats r), s4)
           \<and> length r = n
           \<and> (\<forall>i<n. r ! i =
                   max (bracket_tax
                          (if general_age_of_retirement (parameters period) \<le> ag ! i
                           then taxes_income_tax_brackets_aow (parameters period)
                           else taxes_income_tax_brackets (parameters period))
                          (ti ! i)
                        - (ahk ! i + ak ! i)) 0
                 \<and> 0 \<le> r ! i)"
  using income_tax_formula_result[where parameters = parameters, OF assms]
  by (auto simp: algebra_simps intro!: arg_cong2[where f = max])

theorem income_tax_is_clamped_difference_witness:
  "income_tax_formula (table_accessor credits_table) example_period example_parameters Map.empty
     = Inr (Vector (Floats [10, 0]), Map.empty)"
proof -
  let ?a = "table_accessor credits_table"
  have h1: "call ?a ''taxable_income'' example_period [] Map.empty = Inr (Floats [3000, 1000], Map.empty)"
    by (simp add: call_table_accessor credits_table_def)
  have h2: "call ?a ''age'' example_period [] Map.empty = Inr (Floats [40, 40], Map.empty)"
    by (simp add: call_table_accessor credits_table_def)
  have h3: "call ?a ''algemene_heffingskorting'' example_period [] Map.empty = Inr (Floats [190, 250], Map.empty)"
    by (simp add: call_table_accessor credits_table_def)
  have h4: "call ?a ''arbeidskorting'' example_period [] Map.empty = Inr (Floats [300, 100], Map.empty)"
    by (simp add: call_table_accessor credits_table_def)
  from income_tax_is_clamped_difference[where parameters = example_parameters and n = 2, OF h1 h2 h3 h4]
    example_scales_valid
  obtain r where r: "income_tax_formula ?a example_period example_parameters Map.empty
                       = Inr (Vector (Floats r), Map.empty)"
    and len: "length r = 2"
    and val: "\<forall>i<2. r ! i =
                   max (bracket_tax
                          (if general_age_of_retirement (example_parameters example_period) \<le> [40, 40] ! i
                           then taxes_income_tax_brackets_aow (example_parameters example_period)
                           else taxes_income_tax_brackets (example_parameters example_period))
                          ([3000, 1000] ! i)
                        - ([190, 250] ! i + [300, 100] ! i)) 0"
    by auto
  have "r ! 0 = 10" using val by (simp add: example_parameters_def)
  moreover have "r ! 1 = 0" using val by (simp add: example_parameters_def)
  ultimately have "r = [10, 0]" using len
    by (cases r; cases "tl r") auto
  then show ?thesis using r by simp
qed

text \<open>
  Claim C10.  The gross tax inside \<open>income_tax\<close> is computed, person by person, with
  the scale \<^verbatim>\<open>income_tax_brackets_aow\<close> when the person's age is at least
  \<^verbatim>\<open>age_of_retirement\<close>, and with \<^verbatim>\<open>income_tax_brackets\<close> otherwise.  In the
  example the two persons of one population, aged 70 and 40, are taxed on the same income
  with different scales.
\<close>

theorem income_tax_scale_selection:
  assumes "call person ''taxable_income'' period [] s0 = Inr (Floats ti, s1)"
    and "call person ''age'' period [] s1 = Inr (Floats ag, s2)"
    and "call person ''algemene_heffingskorting'' period [] s2 = Inr (Floats ahk, s3)"
    and "call person ''arbeidskorting'' period [] s3 = Inr (Floats ak, s4)"
    and "length ti = n" and "length ag = n" and "length ahk = n" and "length ak = n"
    and "valid_scale (taxes_income_tax_brackets_aow (parameters period))"
    and "valid_scale (taxes_income_tax_brackets (parameters period))"
  shows "\<exists>r. income_tax_formula person period parameters s0 = Inr (Vector (Floats r), s4)
           \<and> length r = n
           \<and> (\<forall>i<n.
                 (general_age_of_retirement (parameters period) \<le> ag ! i \<longrightarrow>
                    r ! i = max (bracket_tax (taxes_income_tax_brackets_aow (parameters period)) (ti ! i)
                                 - ahk ! i - ak ! i) 0)
               \<and> (ag ! i < general_age_of_retirement (parameters period) \<longrightarrow>
                    r ! i = max (bracket_tax (taxes_income_tax_brackets (parameters period)) (ti ! i)
                                 - ahk ! i - ak ! i) 0))"
  using income_tax_formula_result[where parameters = parameters, OF assms] by auto

theorem income_tax_scale_selection_witness:
  "income_tax_formula (table_accessor two_ages_table) example_period example_parameters Map.empty
     = Inr (Vector (Floats [400, 500]), Map.empty)
   \<and> general_age_of_retirement (example_parameters example_period) \<le> 70
   \<and> (40 :: real) < general_age_of_retirement (example_parameters example_period)
   \<and> bracket_tax (taxes_income_tax_brackets_aow (example_parameters example_period)) 3000 = 400
   \<and> bracket_tax (taxes_income_tax_brackets (example_parameters example_period)) 3000 = 500"
proof -
  let ?a = "table_accessor two_ages_table"
  have h1: "call ?a ''taxable_income'' example_period [] Map.empty = Inr (Floats [3000, 3000], Map.empty)"
    by (simp add: call_table_accessor two_ages_table_def)
  have h2: "call ?a ''age'' example_period [] Map.empty = Inr (Floats [70, 40], Map.empty)"
    by (simp add: call_table_accessor two_ages_table_def)
  have h3: "call ?a ''algemene_heffingskorting'' example_period [] Map.empty = Inr (Floats [0, 0], Map.empty)"
    by (simp add: call_table_accessor two_ages_table_def)
  have h4: "call ?a ''arbeidskorting'' example_period [] Map.empty = Inr (Floats [0, 0], Map.empty)"
    by (simp add: call_table_accessor two_ages_table_def)
  have old: "general_age_of_retirement (example_parameters example_period) \<le> [70, 40] ! 0"
    and young: "[70, 40] ! 1 < general_age_of_retirement (example_parameters example_period)"
    by (simp_all add: example_parameters_def)
  have aow: "bracket_tax (taxes_income_tax_brackets_aow (example_parameters example_period)) 3000 = 400"
    and reg: "bracket_tax (taxes_income_tax_brackets (example_parameters example_period)) 3000 = 500"
    by (simp_all add: example_parameters_def)
  from income_tax_scale_selection[where parameters = example_parameters and n = 2, OF h1 h2 h3 h4] example_scales_valid
  obtain r where r: "income_tax_formula ?a example_period example_parameters Map.empty
                       = Inr (Vector (Floats r), Map.empty)"
    and len: "length r = 2"
    and val: "\<forall>i<2.
                 (general_age_of_retirement (example_parameters example_period) \<le> [70, 40] ! i \<longrightarrow>
                    r ! i = max (bracket_tax (taxes_income_tax_brackets_aow (example_parameters example_period)) ([3000, 3000] ! i)
                                 - [0, 0] ! i - [0, 0] ! i) 0)
               \<and> ([70, 40] ! i < general_age_of_retirement (example_parameters example_period) \<longrightarrow>
                    r ! i = max (bracket_tax (taxes_income_tax_brackets (example_parameters example_period)) ([3000, 3000] ! i)
                                 - [0, 0] ! i - [0, 0] ! i) 0)"
    by auto
  have "r ! 0 = 400" using val old aow by simp
  moreover have "r ! 1 = 500" using val young reg by simp
  ultimately have "r = [400, 500]" using len
    by (cases r; cases "tl r") auto
  then show ?thesis using r old young aow reg by simp
qed

section \<open>housing_tax\<close>

text \<open>
  Claim C9.  For every household and Year period \<open>y\<close>, \<open>housing_tax\<close> reads
  \<^verbatim>\<open>accommodation_size\<close> and \<^verbatim>\<open>housing_occupancy_status\<close> at the first month
  of \<open>y\<close> (its January) and equals max(accommodation_size * rate, minimal_amount) for an
  owner or a tenant, hence at least the minimal amount, and 0 for every other status.
\<close>

theorem housing_tax_by_occupancy:
  assumes "call household ''accommodation_size'' (first_month (year y)) [] s0 = Inr (Floats sz, s1)"
    and "call household ''housing_occupancy_status'' (first_month (year y)) [] s1 = Inr (Enums st, s2)"
    and "length sz = n" and "length st = n"
  shows "Inr (first_month (year y)) = month y 1
       \<and> (\<exists>r. housing_tax_formula household (year y) parameters s0 = Inr (Vector (Floats r), s2)
              \<and> length r = n
              \<and> (\<forall>i<n.
                    (st ! i = owner \<or> st ! i = tenant \<longrightarrow>
                       r ! i = max (sz ! i * taxes_housing_tax_rate (parameters (year y)))
                                   (taxes_housing_tax_minimal_amount (parameters (year y)))
                     \<and> taxes_housing_tax_minimal_amount (parameters (year y)) \<le> r ! i)
                  \<and> (st ! i \<noteq> owner \<and> st ! i \<noteq> tenant \<longrightarrow> r ! i = 0)))"
proof
  show "Inr (first_month (year y)) = month y 1"
    by (simp add: first_month_def year_def month_def)
next
  show "\<exists>r. housing_tax_formula household (year y) parameters s0 = Inr (Vector (Floats r), s2)
              \<and> length r = n
              \<and> (\<forall>i<n.
                    (st ! i = owner \<or> st ! i = tenant \<longrightarrow>
                       r ! i = max (sz ! i * taxes_housing_tax_rate (parameters (year y)))
                                   (taxes_housing_tax_minimal_amount (parameters (year y)))
                     \<and> taxes_housing_tax_minimal_amount (parameters (year y)) \<le> r ! i)
                  \<and> (st ! i \<noteq> owner \<and> st ! i \<noteq> tenant \<longrightarrow> r ! i = 0))"
    using housing_tax_formula_result[where parameters = parameters, OF assms] by auto
qed

theorem housing_tax_by_occupancy_witness:
  "housing_tax_formula (table_accessor housing_table) (year 2024) example_parameters Map.empty
     = Inr (Vector (Floats [1000, 200, 0]), Map.empty)"
proof -
  let ?a = "table_accessor housing_table"
  have h1: "call ?a ''accommodation_size'' (first_month (year 2024)) [] Map.empty
              = Inr (Floats [100, 0, 50], Map.empty)"
    by (simp add: call_table_accessor housing_table_def)
  have h2: "call ?a ''housing_occupancy_status'' (first_month (year 2024)) [] Map.empty
              = Inr (Enums [owner, tenant, other_status ''free_lodger''], Map.empty)"
    by (simp add: call_table_accessor housing_table_def)
  from housing_tax_by_occupancy[where parameters = example_parameters and n = 3, OF h1 h2]
  obtain r where r: "housing_tax_formula ?a (year 2024) example_parameters Map.empty
                       = Inr (Vector (Floats r), Map.empty)"
    and len: "length r = 3"
    and val: "\<forall>i<3.
                    ([owner, tenant, other_status ''free_lodger''] ! i = owner
                      \<or> [owner, tenant, other_status ''free_lodger''] ! i = tenant \<longrightarrow>
                       r ! i = max ([100, 0, 50] ! i * taxes_housing_tax_rate (example_parameters (year 2024)))
                                   (taxes_housing_tax_minimal_amount (example_parameters (year 2024))))
                  \<and> ([owner, tenant, other_status ''free_lodger''] ! i \<noteq> owner
                      \<and> [owner, tenant, other_status ''free_lodger''] ! i \<noteq> tenant \<longrightarrow> r ! i = 0)"
    by auto
  have "r ! 0 = 1000" using val by (simp add: example_parameters_def)
  moreover have "r ! 1 = 200" using val by (simp add: example_parameters_def)
  moreover have "r ! 2 = 0" using val by simp
  ultimately have "r = [1000, 200, 0]" using len
    by (cases r; cases "tl r"; cases "tl (tl r)") auto
  then show ?thesis using r by simp
qed

section \<open>Clamping\<close>








section \<open>Input variables\<close>





text \<open>
  \<^verbatim>\<open>pension\<close> has a formula that returns the scalar 0, so it evaluates to 0 for
  every person whatever the inputs are.
\<close>

lemma pension_default:
  "evaluate (Suc fuel) (input_env i) ''pension'' p = Inr (Floats [0, 0])"
  by (simp add: input_env_def pension_def pension_formula_def person_month_float_def
      evaluate_def ev_bind_def ev_lift_def ev_return_def store_def cast_result_def
      entity_count_def person_count_def numeral_2_eq_2)

section \<open>Cyclic dependencies\<close>

lemma evaluate_rec_formula:
  assumes "registry env n = Some var" and "formula var = Some f" and "cache (n, p) = None"
    and "(n, p) \<notin> pending"
  shows "evaluate_rec (Suc fuel) env pending n p cache =
           ev_bind
             (f (engine_accessor env (entity var) (evaluate_rec fuel env (insert (n, p) pending)))
                p (parameter_store env))
             (\<lambda>r. ev_bind (ev_lift (cast_result (population env) var r)) (store n p))
             cache"
  using assms by simp

lemma engine_call_plain:
  assumes "registry env n = Some var"
  shows "call (engine_accessor env k ev) n p [] cache =
           ev_bind (ev n p)
             (\<lambda>v. if k = Person \<and> entity var = Household
                  then ev_lift (project_to_persons (population env) v)
                  else ev_return v) cache"
  using assms by (simp add: engine_accessor_def engine_call_def)

text \<open>
  Claim C7.  When a (name, period) pair is requested while it is already being computed,
  the evaluator raises \<open>CyclicDependency\<close> at once, with no further nested evaluation
  (any bound of at least 1 suffices); the accessor hands the error to the requesting
  formula, whose bind stops there; and a formula that ends in an error makes the
  evaluation of its variable end in the same error, so the run is aborted.  The examples
  are a variable that requests itself and a cycle through two variables.
\<close>

theorem reentry_raises_cyclic_dependency:
  assumes "registry env n = Some var" and "formula var = Some f"
    and "(n, p) \<in> pending" and "cache (n, p) = None"
  shows "evaluate_rec (Suc fuel) env pending n p cache = Inl CyclicDependency
       \<and> call (engine_accessor env k (evaluate_rec (Suc fuel) env pending)) n p [] cache
           = Inl CyclicDependency
       \<and> (\<forall>g. ev_bind (float_var (engine_accessor env k (evaluate_rec (Suc fuel) env pending)) n p []) g
                 cache = Inl CyclicDependency)
       \<and> (\<forall>m q var' g e pending' c fuel'.
             registry env m = Some var' \<and> formula var' = Some g \<and> (m, q) \<notin> pending'
             \<and> c (m, q) = None
             \<and> g (engine_accessor env (entity var') (evaluate_rec fuel' env (insert (m, q) pending')))
                  q (parameter_store env) c = Inl e
             \<longrightarrow> evaluate_rec (Suc fuel') env pending' m q c = Inl e)"
proof (intro conjI allI impI)
  show re: "evaluate_rec (Suc fuel) env pending n p cache = Inl CyclicDependency"
    using assms by simp
  show c: "call (engine_accessor env k (evaluate_rec (Suc fuel) env pending)) n p [] cache
           = Inl CyclicDependency"
    using re by (simp add: engine_call_plain[OF assms(1)] ev_bind_def)
  fix g
  show "ev_bind (float_var (engine_accessor env k (evaluate_rec (Suc fuel) env pending)) n p []) g
          cache = Inl CyclicDependency"
    using c by (simp add: float_var_def ev_bind_def)
next
  fix m q var' g e pending' c fuel'
  assume "registry env m = Some var' \<and> formula var' = Some g \<and> (m, q) \<notin> pending'
             \<and> c (m, q) = None
             \<and> g (engine_accessor env (entity var') (evaluate_rec fuel' env (insert (m, q) pending')))
                  q (parameter_store env) c = Inl e"
  then show "evaluate_rec (Suc fuel') env pending' m q c = Inl e"
    by (simp add: ev_bind_def)
qed

theorem reentry_raises_cyclic_dependency_witness:
  "\<forall>fuel. evaluate (Suc (Suc fuel)) cyclic_env ''a'' example_period = Inl CyclicDependency
     \<and> evaluate (Suc (Suc (Suc fuel))) cyclic_env ''b'' example_period = Inl CyclicDependency"
proof
  fix fuel
  let ?p = example_period
  let ?P = "parameter_store cyclic_env"
  have ra: "registry cyclic_env ''a'' = Some (person_month_float ''a'' (Some (request_formula ''a'')))"
    and rb: "registry cyclic_env ''b'' = Some (person_month_float ''b'' (Some (request_formula ''c'')))"
    and rc: "registry cyclic_env ''c'' = Some (person_month_float ''c'' (Some (request_formula ''b'')))"
    by (simp_all add: cyclic_env_def)
  have fo: "formula (person_month_float x (Some f)) = Some f" for x f
    by (simp add: person_month_float_def)
  \<comment> \<open>direct: the formula of a requests a while (a, p) is pending\<close>
  have a_inner: "request_formula ''a''
                   (engine_accessor cyclic_env k (evaluate_rec (Suc fuel) cyclic_env {(''a'', ?p)}))
                   ?p ?P Map.empty = Inl CyclicDependency" for k
  proof -
    have pa: "(''a'', ?p) \<in> {(''a'', ?p)}" by simp
    have ce: "(Map.empty :: cache) (''a'', ?p) = None" by simp
    from reentry_raises_cyclic_dependency[OF ra fo pa ce, of fuel k]
    have "\<forall>g. ev_bind (float_var (engine_accessor cyclic_env k
                 (evaluate_rec (Suc fuel) cyclic_env {(''a'', ?p)})) ''a'' ?p []) g Map.empty
               = Inl CyclicDependency"
      by blast
    then show ?thesis unfolding request_formula_def by blast
  qed
  have a: "evaluate_rec (Suc (Suc fuel)) cyclic_env {} ''a'' ?p Map.empty = Inl CyclicDependency"
    by (subst evaluate_rec_formula[OF ra fo]) (simp_all add: a_inner ev_bind_def)
  \<comment> \<open>transitive: b requests c, c requests b while (b, p) is pending\<close>
  have c_inner: "request_formula ''b''
                   (engine_accessor cyclic_env k
                      (evaluate_rec (Suc fuel) cyclic_env {(''c'', ?p), (''b'', ?p)}))
                   ?p ?P Map.empty = Inl CyclicDependency" for k
  proof -
    have pb: "(''b'', ?p) \<in> {(''c'', ?p), (''b'', ?p)}" by simp
    have ce: "(Map.empty :: cache) (''b'', ?p) = None" by simp
    from reentry_raises_cyclic_dependency[OF rb fo pb ce, of fuel k]
    have "\<forall>g. ev_bind (float_var (engine_accessor cyclic_env k
                 (evaluate_rec (Suc fuel) cyclic_env {(''c'', ?p), (''b'', ?p)})) ''b'' ?p []) g Map.empty
               = Inl CyclicDependency"
      by blast
    then show ?thesis unfolding request_formula_def by blast
  qed
  have c: "evaluate_rec (Suc (Suc fuel)) cyclic_env {(''b'', ?p)} ''c'' ?p Map.empty
             = Inl CyclicDependency"
    by (subst evaluate_rec_formula[OF rc fo]) (simp_all add: c_inner ev_bind_def)
  have b_inner: "request_formula ''c''
                   (engine_accessor cyclic_env k
                      (evaluate_rec (Suc (Suc fuel)) cyclic_env {(''b'', ?p)}))
                   ?p ?P Map.empty = Inl CyclicDependency" for k
    unfolding request_formula_def
    using c by (simp add: float_var_def engine_call_plain[OF rc] ev_bind_def)
  have b: "evaluate_rec (Suc (Suc (Suc fuel))) cyclic_env {} ''b'' ?p Map.empty
             = Inl CyclicDependency"
    by (subst evaluate_rec_formula[OF rb fo]) (simp_all add: b_inner ev_bind_def)
  show "evaluate (Suc (Suc fuel)) cyclic_env ''a'' example_period = Inl CyclicDependency
     \<and> evaluate (Suc (Suc (Suc fuel))) cyclic_env ''b'' example_period = Inl CyclicDependency"
    using a b by (simp add: evaluate_def)
qed

section \<open>housing_tax inside Month formulas\<close>

lemma engine_call_divide:
  assumes "registry env n = Some var" and "definition_period var = YEAR"
    and "granularity m = MONTH" and "ev n (this_year m) c = Inr (Floats xs, c')"
  shows "engine_call env Household ev n m [DIVIDE] c = Inr (Floats (map (\<lambda>x. x / 12) xs), c')"
  using assms
  by (simp add: engine_call_def ev_bind_def ev_lift_def ev_return_def divide_vec_def)

lemma engine_call_no_option:
  assumes "registry env n = Some var" and "ev n p c = Inr (v, c')"
  shows "engine_call env Household ev n p [] c = Inr (v, c')"
  using assms by (simp add: engine_call_def ev_bind_def ev_return_def)

lemma month_of_year_granularity: "m \<in> set (months_of y) \<Longrightarrow> granularity m = MONTH"
  by (auto simp: months_of_def)

lemma bind_sum_members:
  "sum_members e xs = Inr ys \<Longrightarrow> ev_bind (ev_lift (sum_members e xs)) f s = f ys s"
  by (simp add: ev_bind_def ev_lift_def)

lemma disposable_income_formula_result:
  assumes "members household ''salary'' m c0 = Inr (Floats sal_i, c1)"
    and "sum_members household sal_i = Inr sal"
    and "members household ''self_employment_taxable_income'' m c1 = Inr (Floats se_i, c2)"
    and "sum_members household se_i = Inr se"
    and "members household ''capital_returns'' m c2 = Inr (Floats cr_i, c3)"
    and "sum_members household cr_i = Inr cr"
    and "members household ''pension'' m c3 = Inr (Floats pen_i, c4)"
    and "sum_members household pen_i = Inr pen"
    and "members household ''income_tax'' m c4 = Inr (Floats it_i, c5)"
    and "sum_members household it_i = Inr it"
    and "call household ''housing_tax'' m [DIVIDE] c5 = Inr (Floats ht, c6)"
    and "members household ''social_security_contribution'' m c6 = Inr (Floats ssc_i, c7)"
    and "sum_members household ssc_i = Inr ssc"
    and "length sal = n" "length se = n" "length cr = n" "length pen = n" "length it = n"
      "length ht = n" "length ssc = n"
  shows "disposable_income_formula household m parameters c0 =
           Inr (Vector (Floats (map (\<lambda>i. sal ! i + se ! i + cr ! i + pen ! i - it ! i - ht ! i - ssc ! i)
                                  [0..<n])), c7)"
  unfolding disposable_income_formula_def
  using assms
  by (simp add: bind_float_members bind_float_var bind_sum_members np_add_def np_sub_def
      broadcast2_same_length[where n = n] ev_bind_lift_Inr ev_return_def)

lemma total_taxes_formula_result:
  assumes "members household ''income_tax'' m k0 = Inr (Floats it_i, k1)"
    and "members household ''social_security_contribution'' m k1 = Inr (Floats ssc_i, k2)"
    and "sum_members household it_i = Inr it"
    and "sum_members household ssc_i = Inr ssc"
    and "call household ''housing_tax'' (this_year m) [] k2 = Inr (Floats ht, k3)"
    and "length it = n" "length ssc = n" "length ht = n"
  shows "total_taxes_formula household m parameters k0 =
           Inr (Vector (Floats (map (\<lambda>i. it ! i + ssc ! i + ht ! i / 12) [0..<n])), k3)"
  unfolding total_taxes_formula_def
  using assms
  by (simp add: bind_float_members bind_float_var bind_sum_members np_add_def
      broadcast2_same_length[where n = n] ev_bind_lift_Inr ev_return_def)


lemma household_env_members:
  "members (engine_accessor household_env Household table_evaluator) ''salary'' p c = Inr (Floats [3000, 1000], c)"
  "members (engine_accessor household_env Household table_evaluator) ''self_employment_taxable_income'' p c
     = Inr (Floats [0, 0], c)"
  "members (engine_accessor household_env Household table_evaluator) ''capital_returns'' p c = Inr (Floats [0, 0], c)"
  "members (engine_accessor household_env Household table_evaluator) ''pension'' p c = Inr (Floats [0, 0], c)"
  "members (engine_accessor household_env Household table_evaluator) ''income_tax'' p c = Inr (Floats [10, 0], c)"
  "members (engine_accessor household_env Household table_evaluator) ''social_security_contribution'' p c
     = Inr (Floats [140, 20], c)"
  by (simp_all add: engine_accessor_def engine_members_def household_env_def table_evaluator_def household_table_def
      ev_bind_def ev_return_def salary_def self_employment_taxable_income_def capital_returns_def
      pension_def income_tax_def social_security_contribution_def person_month_float_def)

lemma household_env_sum:
  "sum_members (engine_accessor household_env Household table_evaluator) [x, y] = Inr [x + y]"
  by (simp add: engine_accessor_def household_env_def sum_by_household_def person_count_def
      numeral_2_eq_2)

text \<open>
  Claim C3.  For every Month period \<open>m\<close> of a Year period \<open>y\<close>, the housing tax that a
  Month formula consumes is the housing tax evaluated on \<open>y\<close>, divided by 12:
  \<open>disposable_income\<close> requests \<^verbatim>\<open>housing_tax\<close> at \<open>m\<close> with the \<open>DIVIDE\<close> option,
  for which the engine evaluates it on \<open>y\<close> and divides by 12; \<open>total_taxes\<close> requests it
  at \<open>this_year m = y\<close> and divides by 12 itself.  The share does not depend on which of
  the 12 months \<open>m\<close> is.
\<close>

theorem housing_tax_monthly_share:
  assumes "valid_period y" and "granularity y = YEAR" and "m \<in> set (months_of y)"
    and "registry env ''housing_tax'' = Some housing_tax"
    and "call household = engine_call env Household ev"
    and "members household ''salary'' m c0 = Inr (Floats sal_i, c1)"
    and "sum_members household sal_i = Inr sal"
    and "members household ''self_employment_taxable_income'' m c1 = Inr (Floats se_i, c2)"
    and "sum_members household se_i = Inr se"
    and "members household ''capital_returns'' m c2 = Inr (Floats cr_i, c3)"
    and "sum_members household cr_i = Inr cr"
    and "members household ''pension'' m c3 = Inr (Floats pen_i, c4)"
    and "sum_members household pen_i = Inr pen"
    and "members household ''income_tax'' m c4 = Inr (Floats it_i, c5)"
    and "sum_members household it_i = Inr it"
    and "ev ''housing_tax'' y c5 = Inr (Floats ht, c6)"
    and "members household ''social_security_contribution'' m c6 = Inr (Floats ssc_i, c7)"
    and "sum_members household ssc_i = Inr ssc"
    and "length sal = n" and "length se = n" and "length cr = n" and "length pen = n"
    and "length it = n" and "length ht = n" and "length ssc = n"
    and "members household ''income_tax'' m k0 = Inr (Floats it_i', k1)"
    and "members household ''social_security_contribution'' m k1 = Inr (Floats ssc_i', k2)"
    and "sum_members household it_i' = Inr it'"
    and "sum_members household ssc_i' = Inr ssc'"
    and "ev ''housing_tax'' y k2 = Inr (Floats ht', k3)"
    and "length it' = n'" and "length ssc' = n'" and "length ht' = n'"
  shows "call household ''housing_tax'' m [DIVIDE] c5 = Inr (Floats (map (\<lambda>x. x / 12) ht), c6)
       \<and> disposable_income_formula household m parameters c0 =
           Inr (Vector (Floats (map (\<lambda>i. sal ! i + se ! i + cr ! i + pen ! i - it ! i
                                          - ht ! i / 12 - ssc ! i) [0..<n])), c7)
       \<and> total_taxes_formula household m parameters k0 =
           Inr (Vector (Floats (map (\<lambda>i. it' ! i + ssc' ! i + ht' ! i / 12) [0..<n'])), k3)"
proof -
  have gm: "granularity m = MONTH"
    using assms(3) by (rule month_of_year_granularity)
  have ty: "this_year m = y"
    using assms(3) assms(1) assms(2) by (rule this_year_of_month)
  have dp: "definition_period housing_tax = YEAR"
    by (simp add: housing_tax_def)
  have share: "call household ''housing_tax'' m [DIVIDE] c5 = Inr (Floats (map (\<lambda>x. x / 12) ht), c6)"
    using engine_call_divide[OF assms(4) dp gm, of ev c5 ht c6] assms(5) assms(16) ty by simp
  have lh: "length (map (\<lambda>x. x / 12) ht) = n"
    using assms(24) by simp
  have d: "disposable_income_formula household m parameters c0 =
           Inr (Vector (Floats (map (\<lambda>i. sal ! i + se ! i + cr ! i + pen ! i - it ! i
                                          - map (\<lambda>x. x / 12) ht ! i - ssc ! i) [0..<n])), c7)"
    by (rule disposable_income_formula_result[OF assms(6-15) share assms(17-23) lh assms(25)])
  have d': "map (\<lambda>i. sal ! i + se ! i + cr ! i + pen ! i - it ! i
                      - map (\<lambda>x. x / 12) ht ! i - ssc ! i) [0..<n]
          = map (\<lambda>i. sal ! i + se ! i + cr ! i + pen ! i - it ! i - ht ! i / 12 - ssc ! i) [0..<n]"
    using assms(24) by (intro map_cong) auto
  have yearly: "call household ''housing_tax'' (this_year m) [] k2 = Inr (Floats ht', k3)"
    using engine_call_no_option[OF assms(4), of ev y k2 "Floats ht'" k3] assms(5) assms(30) ty
    by simp
  have t: "total_taxes_formula household m parameters k0 =
           Inr (Vector (Floats (map (\<lambda>i. it' ! i + ssc' ! i + ht' ! i / 12) [0..<n'])), k3)"
    by (rule total_taxes_formula_result[OF assms(26-29) yearly assms(31-33)])
  show ?thesis using share d d' t by simp
qed


theorem housing_tax_monthly_share_witness:
  "call (engine_accessor household_env Household table_evaluator) ''housing_tax'' example_period [DIVIDE] Map.empty
     = Inr (Floats [100], Map.empty)
   \<and> disposable_income_formula (engine_accessor household_env Household table_evaluator) example_period
        example_parameters Map.empty
     = Inr (Vector (Floats [3730]), Map.empty)
   \<and> total_taxes_formula (engine_accessor household_env Household table_evaluator) example_period
        example_parameters Map.empty
     = Inr (Vector (Floats [270]), Map.empty)"
proof -
  let ?h = "engine_accessor household_env Household table_evaluator"
  let ?c = "Map.empty :: cache"
  have v: "valid_period (year 2024)" by (simp add: year_def valid_period_def)
  have g: "granularity (year 2024) = YEAR" by (simp add: year_def)
  have mem: "example_period \<in> set (months_of (year 2024))"
    by (simp add: months_of_def upto_1_12 example_period_def year_def)
  have reg: "registry household_env ''housing_tax'' = Some housing_tax" by (simp add: household_env_def)
  have acc: "call ?h = engine_call household_env Household table_evaluator" by (simp add: engine_accessor_def)
  have ht: "table_evaluator ''housing_tax'' (year 2024) ?c = Inr (Floats [1200], ?c)"
    by (simp add: table_evaluator_def household_table_def ev_return_def)
  have l: "length [a :: real] = 1" for a by simp
  note T = housing_tax_monthly_share[where parameters = example_parameters,
      OF v g mem reg acc
         household_env_members(1) household_env_sum household_env_members(2) household_env_sum household_env_members(3) household_env_sum household_env_members(4) household_env_sum
         household_env_members(5) household_env_sum ht household_env_members(6) household_env_sum l l l l l l l
         household_env_members(5) household_env_members(6) household_env_sum household_env_sum ht l l l]
  have one: "[0..<1] = [0]" by simp
  show ?thesis using T unfolding one by simp
qed

end
